theory Spec2Isabelle
  imports Complex_Main "HOL-Library.Multiset" "HOL-Library.List_Lexorder" "HOL-Library.Char_ord"
    "HOL-Library.Word"
begin

section \<open>Lesson 10.1: bag of words and bigrams\<close>

text \<open>
  The lesson turns a message into a list of words and counts them with the standard
  library's \<^verbatim>\<open>Counter\<close>, whose constructor runs
  \<^verbatim>\<open>for elem in iterable: self[elem] = self.get(elem, 0) + 1\<close>
  over an initially empty dictionary. A dictionary is a finite map; two dictionaries are
  equal when they hold the same keys with the same values, whatever the insertion order.
\<close>

definition Counter_add :: "'a \<Rightarrow> ('a \<rightharpoonup> nat) \<Rightarrow> ('a \<rightharpoonup> nat)" where
  "Counter_add elem self =
     self(elem \<mapsto> (case self elem of None \<Rightarrow> 0 | Some c \<Rightarrow> c) + 1)"

definition Counter :: "'a list \<Rightarrow> ('a \<rightharpoonup> nat)" where
  "Counter iterable = fold Counter_add iterable Map.empty"

text \<open>
  \<^verbatim>\<open>def get_bigrams(words): return zip(words[:-1], words[1:])\<close>
  The slice \<^verbatim>\<open>words[:-1]\<close> drops the last element and \<^verbatim>\<open>words[1:]\<close> the first;
  on the empty list both slices are empty. \<^verbatim>\<open>zip\<close> stops at the shorter argument.
  The iterator that \<^verbatim>\<open>zip\<close> returns is modelled by the list of the pairs it yields.
\<close>

definition get_bigrams :: "'a list \<Rightarrow> ('a \<times> 'a) list" where
  "get_bigrams words = zip (butlast words) (tl words)"

section \<open>Errors raised by the lessons' code\<close>

datatype error = NotImplementedError | KeyError | IndexError | ValueError

section \<open>Lesson 5.4: the train/validation split\<close>

text \<open>
  A table is the list of its rows, each row carrying its index label:
  \<open>(label, row)\<close>.

  \<^verbatim>\<open>train = housing.sample(frac=.5)\<close>
  draws \<^verbatim>\<open>round(frac * len(housing))\<close> row positions without replacement (the default
  \<^verbatim>\<open>replace=False\<close>) and takes those rows. Python rounds a half to the even neighbour.
  The random generator is made explicit: \<open>perm\<close> is the permutation of the positions
  \<open>0 ..< len(housing)\<close> that it shuffles, and the sample is its first entries.
\<close>

definition sample_size :: "nat \<Rightarrow> nat" where
  "sample_size n =
     (if even n then n div 2
      else if even (n div 2) then n div 2 else n div 2 + 1)"

definition sample :: "nat list \<Rightarrow> ('l \<times> 'r) list \<Rightarrow> ('l \<times> 'r) list" where
  "sample perm table = map (\<lambda>i. table ! i) (take (sample_size (length table)) perm)"

definition index :: "('l \<times> 'r) list \<Rightarrow> 'l list" where
  "index table = map fst table"

text \<open>
  \<^verbatim>\<open>val = housing.drop(train.index)\<close>
  removes every row whose label is among the given labels, and raises \<^verbatim>\<open>KeyError\<close>
  when one of the labels is not a label of the table.
\<close>

definition drop_labels :: "('l \<times> 'r) list \<Rightarrow> 'l list \<Rightarrow> error + ('l \<times> 'r) list" where
  "drop_labels table labels =
     (if set labels \<subseteq> set (index table)
      then Inr (filter (\<lambda>(l, r). l \<notin> set labels) table)
      else Inl KeyError)"

section \<open>Lesson 10.2: the exercise placeholder\<close>

text \<open>
  \<^verbatim>\<open>
  def predict_spam(new_text):
      x_new = vec.transform([new_text])[0, :]
      raise NotImplementedError
  \<close>
  The fitted vectorizer \<open>vec\<close> is a global of the notebook; its \<^verbatim>\<open>transform\<close> returns
  one row per document of the list it is given, so it is modelled by the function from a
  document to its row. Taking row \<open>0\<close> of a matrix without rows would raise
  \<^verbatim>\<open>IndexError\<close>. The labels that a finished exercise would return are strings.
\<close>

definition predict_spam :: "(string \<Rightarrow> real list) \<Rightarrow> string \<Rightarrow> error + string" where
  "predict_spam vec new_text =
     (case map vec [new_text] of
        [] \<Rightarrow> Inl IndexError
      | x_new # _ \<Rightarrow> Inl NotImplementedError)"

section \<open>Lesson 10.2: TF-IDF from scratch\<close>

text \<open>
  The term-frequency matrix \<open>tf\<close> has one row per document and one column per term; after
  \<^verbatim>\<open>tf.fillna(0)\<close> every entry is a number. A frame is the list of its rows, and its
  number of columns is read off the first row.

  Numbers are modelled as real numbers with exact arithmetic. A division by zero does not
  raise in \<^verbatim>\<open>numpy\<close>: it yields \<^verbatim>\<open>inf\<close> or \<^verbatim>\<open>nan\<close> and a warning, and what is computed
  from such a value is again \<^verbatim>\<open>inf\<close> or \<^verbatim>\<open>nan\<close>. These non-finite results are the
  value \<open>None\<close>.
\<close>

definition ncols :: "real list list \<Rightarrow> nat" where
  "ncols frame = (case frame of [] \<Rightarrow> 0 | row # _ \<Rightarrow> length row)"

text \<open>\<^verbatim>\<open>df = (tf > 0).sum(axis=0)\<close>: per column, the sum of the truth values.\<close>

definition df :: "real list list \<Rightarrow> nat list" where
  "df tf = map (\<lambda>t. sum_list (map (\<lambda>row. if row ! t > 0 then 1 else 0) tf)) [0 ..< ncols tf]"

text \<open>\<^verbatim>\<open>idf = np.log(len(tf) / df)\<close>: elementwise over the columns.\<close>

definition idf :: "real list list \<Rightarrow> real option list" where
  "idf tf = map (\<lambda>c. if c = 0 then None else Some (ln (real (length tf) / real c))) (df tf)"

text \<open>
  \<^verbatim>\<open>tf_idf = tf * idf\<close>: a frame times a series multiplies every row elementwise with
  the series, aligned on the columns.
\<close>

definition tf_idf :: "real list list \<Rightarrow> real option list list" where
  "tf_idf tf = map (\<lambda>row. map (\<lambda>(x, w). map_option (\<lambda>w. x * w) w) (zip row (idf tf))) tf"

section \<open>Lesson 10.2: cosine similarity against message 0\<close>

text \<open>
  The library's TF-IDF matrix \<^verbatim>\<open>tf_idf_sparse\<close> is the list of its rows, one per message.
  \<^verbatim>\<open>a.multiply(b).sum()\<close> multiplies two rows elementwise and adds the products up.

  The numbers of this section are exact reals, where the code has 64-bit floating-point
  numbers. The model is used for one question only, which rounding does not change for the
  weights the vectorizer produces: which denominators are zero.
\<close>

definition row_dot :: "real list \<Rightarrow> real list \<Rightarrow> real" where
  "row_dot a b = sum_list (map (\<lambda>(x, y). x * y) (zip a b))"

text \<open>\<^verbatim>\<open>dot = a.multiply(B).sum(axis=1)\<close>: the row \<open>a\<close> is broadcast over the rows of \<open>B\<close>.\<close>

definition dot :: "real list \<Rightarrow> real list list \<Rightarrow> real list" where
  "dot a B = map (\<lambda>b. row_dot a b) B"

text \<open>\<^verbatim>\<open>a_len = np.sqrt(a.multiply(a).sum())\<close>\<close>

definition a_len :: "real list \<Rightarrow> real" where
  "a_len a = sqrt (row_dot a a)"

text \<open>\<^verbatim>\<open>b_len = np.sqrt(B.multiply(B).sum(axis=1))\<close>\<close>

definition b_len :: "real list list \<Rightarrow> real list" where
  "b_len B = map (\<lambda>b. sqrt (row_dot b b)) B"

text \<open>The denominators \<^verbatim>\<open>a_len * b_len\<close>, one per message.\<close>

definition denominators :: "real list \<Rightarrow> real list list \<Rightarrow> real list" where
  "denominators a B = map (\<lambda>l. a_len a * l) (b_len B)"

text \<open>
  An elementwise division: where the denominator is zero \<^verbatim>\<open>numpy\<close> warns and stores
  \<^verbatim>\<open>nan\<close> or \<^verbatim>\<open>inf\<close>, the value \<open>None\<close> here.
\<close>

definition np_divide :: "real \<Rightarrow> real \<Rightarrow> real option" where
  "np_divide x y = (if y = 0 then None else Some (x / y))"

text \<open>
  \<^verbatim>\<open>
  a = tf_idf_sparse[0, :]
  B = tf_idf_sparse
  dot = a.multiply(B).sum(axis=1)
  a_len = np.sqrt(a.multiply(a).sum())
  b_len = np.sqrt(B.multiply(B).sum(axis=1))
  cos_similarities = pd.DataFrame(dot / (a_len * b_len))[0]
  \<close>
  Row \<open>0\<close> of a matrix without rows does not exist: \<^verbatim>\<open>IndexError\<close>.
\<close>

definition cos_similarities :: "real list list \<Rightarrow> error + real option list" where
  "cos_similarities tf_idf_sparse =
     (case tf_idf_sparse of
        [] \<Rightarrow> Inl IndexError
      | a # _ \<Rightarrow>
          (let B = tf_idf_sparse
           in Inr (map (\<lambda>(n, d). np_divide n d) (zip (dot a B) (denominators a B)))))"

section \<open>Lesson 10.2: the words of a message and the library's vectorizer\<close>

text \<open>
  Strings are lists of 8-bit characters, one character per code point: the model covers
  ASCII text, the documents that satisfy Python's \<^verbatim>\<open>str.isascii\<close>. Beyond ASCII the
  library's lowercasing and its pattern \<^verbatim>\<open>\w\<close> know further letters and digits, which the
  definitions below do not. The whitespace characters are those of \<^verbatim>\<open>str.isspace\<close> and
  of the pattern \<^verbatim>\<open>\s\<close>.
\<close>

definition isascii :: "string \<Rightarrow> bool" where
  "isascii s \<longleftrightarrow> (\<forall>c \<in> set s. of_char c < (128 :: nat))"

definition ascii_uppercase :: string where
  "ascii_uppercase = ''ABCDEFGHIJKLMNOPQRSTUVWXYZ''"

definition ascii_lowercase :: string where
  "ascii_lowercase = ''abcdefghijklmnopqrstuvwxyz''"

definition digits :: string where
  "digits = ''0123456789''"

definition isspace :: "char \<Rightarrow> bool" where
  "isspace c \<longleftrightarrow>
     c \<in> set [CHR 0x09, CHR 0x0A, CHR 0x0B, CHR 0x0C, CHR 0x0D,
               CHR 0x1C, CHR 0x1D, CHR 0x1E, CHR 0x1F, CHR 0x20]"

text \<open>\<^verbatim>\<open>str.lower()\<close>, on ASCII text.\<close>

definition lower :: "string \<Rightarrow> string" where
  "lower s =
     map (\<lambda>c. case map_of (zip ascii_uppercase ascii_lowercase) c of
                None \<Rightarrow> c | Some l \<Rightarrow> l) s"

text \<open>
  The maximal runs of characters between separators, in order; \<open>w\<close> is the run being read.
\<close>

fun runs :: "(char \<Rightarrow> bool) \<Rightarrow> string \<Rightarrow> string \<Rightarrow> string list" where
  "runs sep w [] = (if w = [] then [] else [w])"
| "runs sep w (c # cs) =
     (if sep c then (if w = [] then runs sep [] cs else w # runs sep [] cs)
      else runs sep (w @ [c]) cs)"

text \<open>\<^verbatim>\<open>str.split()\<close> without arguments: the runs of non-whitespace characters.\<close>

definition str_split :: "string \<Rightarrow> string list" where
  "str_split s = runs isspace [] s"

text \<open>
  The words of a message as the lesson takes them for its bag of words:
  \<^verbatim>\<open>text.str.lower().str.replace("[^A-Za-z\s]", "").str.split()\<close>
  The replacement deletes every character that is neither a letter nor whitespace.
\<close>

definition words_of :: "string \<Rightarrow> string list" where
  "words_of text =
     str_split (filter (\<lambda>c. c \<in> set (ascii_uppercase @ ascii_lowercase) \<or> isspace c) (lower text))"

text \<open>
  The matrix \<^verbatim>\<open>tf_idf_sparse\<close> is not built from these words. It comes from the
  library:
  \<^verbatim>\<open>
  vec = TfidfVectorizer(norm=None)
  vec.fit(sms["text"])
  tf_idf_sparse = vec.transform(sms["text"])
  \<close>
  Modelled from the library's documentation (scikit-learn is not part of the repository):
  with its default settings the vectorizer lowercases a document and takes as tokens the
  matches of the pattern \<^verbatim>\<open>(?u)\b\w\w+\b\<close>, in ASCII text the maximal runs of two or
  more letters, digits or underscores. \<^verbatim>\<open>fit\<close> learns the sorted vocabulary and the smoothed weight
  \<^verbatim>\<open>idf(t) = ln((1 + n) / (1 + df(t))) + 1\<close> of every term, \<open>n\<close> the number of documents and
  \<open>df(t)\<close> the number of documents with the term. \<^verbatim>\<open>transform\<close> returns one row per
  document: the count of every vocabulary term in the document times the weight of the
  term, not normalised.
\<close>

definition tokens :: "string \<Rightarrow> string list" where
  "tokens doc =
     filter (\<lambda>w. 2 \<le> length w)
       (runs (\<lambda>c. c \<notin> set (ascii_uppercase @ ascii_lowercase @ digits @ ''_'')) [] (lower doc))"

definition TfidfVectorizer_fit :: "string list \<Rightarrow> (string \<times> real) list" where
  "TfidfVectorizer_fit corpus =
     map (\<lambda>t. (t, ln ((1 + real (length corpus))
                        / (1 + real (length (filter (\<lambda>doc. t \<in> set (tokens doc)) corpus)))) + 1))
       (sort (remdups (concat (map tokens corpus))))"

definition TfidfVectorizer_transform :: "(string \<times> real) list \<Rightarrow> string list \<Rightarrow> real list list" where
  "TfidfVectorizer_transform vec docs =
     map (\<lambda>doc. map (\<lambda>(t, idf_t). real (count_list (tokens doc) t) * idf_t) vec) docs"

definition tf_idf_sparse :: "string list \<Rightarrow> real list list" where
  "tf_idf_sparse corpus = TfidfVectorizer_transform (TfidfVectorizer_fit corpus) corpus"

section \<open>Lesson 5.1: k-nearest neighbours from scratch\<close>

text \<open>
  The training data are globals of the notebook, both cut from the same table:
  \<^verbatim>\<open>X_train = housing[["Gr Liv Area"]]\<close> and \<^verbatim>\<open>y_train = housing["SalePrice"]\<close>.
  Both columns hold whole numbers, which \<^verbatim>\<open>read_csv\<close> stores as 64-bit signed integers
  (\<^verbatim>\<open>int64\<close>); so are the new observations, the rows of
  \<^verbatim>\<open>X_new["Gr Liv Area"] = np.arange(0, 6000, 10)\<close>. The arithmetic of \<^verbatim>\<open>int64\<close> frames
  and series wraps around modulo \<open>2\<^sup>6\<^sup>4\<close> without an error; a value is read as a signed
  number (\<open>sint\<close>).

  A frame is the list of its rows and a series the list of its values; the index labels
  are the positions \<open>0, 1, ...\<close> that \<^verbatim>\<open>read_csv\<close> assigns. A new observation is one row
  with the same columns.
\<close>

type_synonym int64 = "64 word"

text \<open>
  \<^verbatim>\<open>series.sort_values()\<close> orders the entries, each with its label, by ascending value.
  The order among equal values is left to the sorting algorithm; the model keeps them in
  their original order.
\<close>

definition sort_values :: "int64 list \<Rightarrow> (nat \<times> int64) list" where
  "sort_values series = sort_key (\<lambda>(label, v). sint v) (zip [0 ..< length series] series)"

text \<open>\<^verbatim>\<open>series.loc[labels]\<close> raises \<^verbatim>\<open>KeyError\<close> for a label the series does not have.\<close>

definition loc :: "'a list \<Rightarrow> nat list \<Rightarrow> error + 'a list" where
  "loc series labels =
     (if \<forall>l \<in> set labels. l < length series
      then Inr (map (\<lambda>l. series ! l) labels)
      else Inl KeyError)"

text \<open>
  \<^verbatim>\<open>series.mean()\<close> is a floating-point number, here the exact quotient that it rounds;
  the mean of an empty series is \<^verbatim>\<open>nan\<close>, the value \<open>None\<close>.
\<close>

definition mean :: "real list \<Rightarrow> real option" where
  "mean series = (if series = [] then None else Some (sum_list series / real (length series)))"

text \<open>
  \<^verbatim>\<open>
  def get_30NN_prediction(x_new):
      dists = ((X_train - x_new) ** 2).sum(axis=1)
      inds_sorted = dists.sort_values().index[:30]
      return y_train.loc[inds_sorted].mean()
  \<close>
  The globals \<^verbatim>\<open>X_train\<close> and \<^verbatim>\<open>y_train\<close> that the body reads are explicit arguments.
  The difference, the square and the sum are those of \<^verbatim>\<open>int64\<close>; the mean of the
  \<^verbatim>\<open>int64\<close> labels is taken over their signed values.
\<close>

definition get_30NN_prediction :: "int64 list list \<Rightarrow> int64 list \<Rightarrow> int64 list \<Rightarrow> error + real option" where
  "get_30NN_prediction X_train y_train x_new =
     (let dists = map (\<lambda>row. \<Sum>(x, x') \<leftarrow> zip row x_new. (x - x')\<^sup>2) X_train;
          inds_sorted = take 30 (map fst (sort_values dists))
      in case loc y_train inds_sorted of
           Inl e \<Rightarrow> Inl e
         | Inr labels \<Rightarrow> Inr (mean (map (\<lambda>v. real_of_int (sint v)) labels)))"






section \<open>Lesson 5.4: the validation error\<close>

text \<open>
  The lesson calls three estimators of scikit-learn, which is not part of the repository:
  they are parameters of the model, with the types of a fitted vectorizer, scaler and
  regressor left open.
\<close>

record ('d, 'v, 's, 'm) sklearn =
  DictVectorizer_fit :: "'d list \<Rightarrow> 'v"
  DictVectorizer_transform :: "'v \<Rightarrow> 'd list \<Rightarrow> real list list"
  StandardScaler_fit :: "real list list \<Rightarrow> 's"
  StandardScaler_transform :: "'s \<Rightarrow> real list list \<Rightarrow> real list list"
  KNeighborsRegressor_fit :: "nat \<Rightarrow> real list list \<Rightarrow> real list \<Rightarrow> 'm"
  KNeighborsRegressor_predict :: "'m \<Rightarrow> real list list \<Rightarrow> real list"

text \<open>
  \<^verbatim>\<open>
  def get_val_error(X_train, y_train, X_val, y_val):
      vec = DictVectorizer(sparse=False)
      vec.fit(X_train_dict)
      X_train = vec.transform(X_train_dict)
      X_val = vec.transform(X_val_dict)
      scaler = StandardScaler()
      scaler.fit(X_train)
      X_train_sc = scaler.transform(X_train)
      X_val_sc = scaler.transform(X_val)
      model = KNeighborsRegressor(n_neighbors=10)
      model.fit(X_train_sc, y_train)
      y_val_pred = model.predict(X_val_sc)
      rmse = np.sqrt(((y_val - y_val_pred) ** 2).mean())
      return rmse
  \<close>
  The body reads \<^verbatim>\<open>X_train_dict\<close> and \<^verbatim>\<open>X_val_dict\<close>, which are not parameters but
  globals of the notebook (the records of the first and of the second half of the split);
  they are explicit arguments here, before the four parameters. The assignments to
  \<^verbatim>\<open>X_train\<close> and \<^verbatim>\<open>X_val\<close> rebind the parameters of these names. Subtracting an
  array of another length from a series raises \<^verbatim>\<open>ValueError\<close>.
\<close>

definition get_val_error ::
  "('d, 'v, 's, 'm) sklearn \<Rightarrow> 'd list \<Rightarrow> 'd list \<Rightarrow>
     'x \<Rightarrow> real list \<Rightarrow> 'x \<Rightarrow> real list \<Rightarrow> error + real option" where
  "get_val_error sk X_train_dict X_val_dict X_train y_train X_val y_val =
     (let vec = DictVectorizer_fit sk X_train_dict;
          X_train = DictVectorizer_transform sk vec X_train_dict;
          X_val = DictVectorizer_transform sk vec X_val_dict;
          scaler = StandardScaler_fit sk X_train;
          X_train_sc = StandardScaler_transform sk scaler X_train;
          X_val_sc = StandardScaler_transform sk scaler X_val;
          model = KNeighborsRegressor_fit sk 10 X_train_sc y_train;
          y_val_pred = KNeighborsRegressor_predict sk model X_val_sc
      in if length y_val \<noteq> length y_val_pred then Inl ValueError
         else Inr (map_option sqrt (mean (map (\<lambda>(y, pred). (y - pred)\<^sup>2) (zip y_val y_val_pred)))))"

section \<open>The helpers and the state of their notebooks\<close>

text \<open>
  A helper is called in a notebook whose globals hold the downloaded dataset and what was
  computed from it. \<^verbatim>\<open>get_bigrams\<close> reads no global: its body names only its parameter
  and the built-in \<^verbatim>\<open>zip\<close>. \<^verbatim>\<open>get_30NN_prediction\<close> reads the globals \<^verbatim>\<open>X_train\<close> and
  \<^verbatim>\<open>y_train\<close>.
\<close>

definition call_get_bigrams :: "'g \<Rightarrow> 'a list \<Rightarrow> ('a \<times> 'a) list" where
  "call_get_bigrams globals words = get_bigrams words"

definition call_get_30NN_prediction ::
  "int64 list list \<times> int64 list \<Rightarrow> int64 list \<Rightarrow> error + real option" where
  "call_get_30NN_prediction globals x_new =
     (case globals of (X_train, y_train) \<Rightarrow> get_30NN_prediction X_train y_train x_new)"

text \<open>
  A helper is independent of the dataset when two calls with equal arguments return equal
  results whatever the globals of the two runs are.
\<close>

definition dataset_independent :: "('g \<Rightarrow> 'a \<Rightarrow> 'b) \<Rightarrow> bool" where
  "dataset_independent f \<longleftrightarrow> (\<forall>globals globals' x. f globals x = f globals' x)"

section \<open>Properties of the bag of words\<close>

lemma fold_Counter_add:
  "fold Counter_add ws m w =
     (if w \<in> set ws \<or> m w \<noteq> None
      then Some ((case m w of None \<Rightarrow> 0 | Some c \<Rightarrow> c) + count_list ws w)
      else None)"
  by (induction ws arbitrary: m) (auto simp: Counter_add_def split: option.splits)

lemma Counter_lookup:
  "Counter ws w = (if w \<in> set ws then Some (count_list ws w) else None)"
  by (simp add: Counter_def fold_Counter_add)

lemma dom_Counter: "dom (Counter ws) = set ws"
  by (auto simp: Counter_lookup dom_def)

lemma Counter_total: "(\<Sum>w \<in> dom (Counter ws). the (Counter ws w)) = length ws"
proof -
  have "(\<Sum>w \<in> dom (Counter ws). the (Counter ws w)) = (\<Sum>w \<in> set ws. count_list ws w)"
    by (simp add: dom_Counter Counter_lookup)
  also have "\<dots> = length ws"
    by (rule sum_count_set) auto
  finally show ?thesis .
qed

lemma count_list_mset: "count_list ws w = count (mset ws) w"
  by (induction ws) auto

lemma Counter_mset: "mset ws = mset ws' \<Longrightarrow> Counter ws = Counter ws'"
proof (rule ext)
  fix w
  assume eq: "mset ws = mset ws'"
  then have "set ws = set ws'" by (rule mset_eq_setD)
  moreover from eq have "count_list ws w = count_list ws' w"
    by (simp add: count_list_mset)
  ultimately show "Counter ws w = Counter ws' w"
    by (simp add: Counter_lookup)
qed

text \<open>
  Claim C10. For every list of words, \<open>Counter\<close> maps each distinct word of the list to its
  number of occurrences (and holds no other key), the counts add up to the length of the
  list, and every rearrangement of the list yields the same bag.
\<close>

theorem Counter_bag_of_words:
  "(\<forall>w. Counter ws w = (if w \<in> set ws then Some (count_list ws w) else None)) \<and>
   (\<Sum>w \<in> dom (Counter ws). the (Counter ws w)) = length ws \<and>
   (\<forall>ws'. mset ws' = mset ws \<longrightarrow> Counter ws' = Counter ws)"
  using Counter_lookup [of ws] Counter_total [of ws] Counter_mset [of _ ws] by blast

theorem Counter_bag_of_words_witness:
  "Counter [''I'', ''am'', ''Sam'', ''Sam'', ''I'', ''am''] ''Sam'' = Some 2 \<and>
   Counter [''I'', ''am'', ''Sam'', ''Sam'', ''I'', ''am''] ''the'' = None \<and>
   (\<Sum>w \<in> dom (Counter [''I'', ''am'', ''Sam'', ''Sam'', ''I'', ''am'']).
      the (Counter [''I'', ''am'', ''Sam'', ''Sam'', ''I'', ''am''] w)) = 6 \<and>
   Counter [''Sam'', ''I'', ''am'', ''I'', ''am'', ''Sam'']
     = Counter [''I'', ''am'', ''Sam'', ''Sam'', ''I'', ''am'']"
proof -
  let ?ws = "[''I'', ''am'', ''Sam'', ''Sam'', ''I'', ''am'']"
  let ?ws' = "[''Sam'', ''I'', ''am'', ''I'', ''am'', ''Sam'']"
  note C = Counter_bag_of_words [of ?ws]
  have perm: "mset ?ws' = mset ?ws" by simp
  from C have look: "\<And>w. Counter ?ws w = (if w \<in> set ?ws then Some (count_list ?ws w) else None)"
    by blast
  from C have total: "(\<Sum>w \<in> dom (Counter ?ws). the (Counter ?ws w)) = length ?ws"
    by blast
  from C perm have same: "Counter ?ws' = Counter ?ws"
    by blast
  have "Counter ?ws ''Sam'' = Some 2" by (simp add: look)
  moreover have "Counter ?ws ''the'' = None" by (simp add: look)
  moreover have "(\<Sum>w \<in> dom (Counter ?ws). the (Counter ?ws w)) = 6" using total by simp
  ultimately show ?thesis using same by blast
qed

section \<open>Properties of the bigram generator\<close>

lemma length_get_bigrams: "length (get_bigrams ws) = length ws - 1"
  by (simp add: get_bigrams_def)

lemma nth_get_bigrams:
  "i < length ws - 1 \<Longrightarrow> get_bigrams ws ! i = (ws ! i, ws ! (i + 1))"
  by (simp add: get_bigrams_def nth_butlast nth_tl)

text \<open>
  Claim C5. For a list of \<open>n\<close> words, \<open>get_bigrams\<close> returns exactly the \<open>n - 1\<close> consecutive
  pairs \<open>(words[i], words[i+1])\<close> for \<open>i = 0 .. n-2\<close>, in that order; a list with fewer than
  two words (the empty list included) gives the empty sequence.
\<close>

theorem get_bigrams_consecutive_pairs:
  "get_bigrams ws = map (\<lambda>i. (ws ! i, ws ! (i + 1))) [0 ..< length ws - 1] \<and>
   length (get_bigrams ws) = length ws - 1 \<and>
   (\<forall>i < length ws - 1. get_bigrams ws ! i = (ws ! i, ws ! (i + 1))) \<and>
   (length ws < 2 \<longrightarrow> get_bigrams ws = [])"
proof -
  have "get_bigrams ws = map (\<lambda>i. (ws ! i, ws ! (i + 1))) [0 ..< length ws - 1]"
    by (rule nth_equalityI) (simp_all add: length_get_bigrams nth_get_bigrams)
  moreover have "length ws < 2 \<Longrightarrow> get_bigrams ws = []"
    using length_get_bigrams [of ws] by simp
  ultimately show ?thesis
    by (simp add: length_get_bigrams nth_get_bigrams)
qed

theorem get_bigrams_consecutive_pairs_witness:
  "get_bigrams [''the'', ''dog'', ''bit'', ''her'', ''owner'']
     = [(''the'', ''dog''), (''dog'', ''bit''), (''bit'', ''her''), (''her'', ''owner'')] \<and>
   get_bigrams [''dog''] = [] \<and>
   get_bigrams ([] :: string list) = []"
proof -
  have a: "[0 ..< length [''the'', ''dog'', ''bit'', ''her'', ''owner''] - 1] = [0, 1, 2, 3]"
    by (simp add: upt_rec)
  show ?thesis
    using get_bigrams_consecutive_pairs [of "[''the'', ''dog'', ''bit'', ''her'', ''owner'']"]
      get_bigrams_consecutive_pairs [of "[''dog'']"]
      get_bigrams_consecutive_pairs [of "[] :: string list"]
    by (simp add: a)
qed

section \<open>The train/validation split is a partition\<close>

lemma mset_nths_filter:
  assumes "distinct xs" "distinct locs" "set locs \<subseteq> {..< length xs}"
  shows "mset (map (\<lambda>i. xs ! i) locs) = filter_mset (\<lambda>x. x \<in> set (map (\<lambda>i. xs ! i) locs)) (mset xs)"
proof -
  let ?ys = "map (\<lambda>i. xs ! i) locs"
  have inj: "inj_on (\<lambda>i. xs ! i) (set locs)"
  proof (rule inj_onI)
    fix i j assume "i \<in> set locs" "j \<in> set locs" "xs ! i = xs ! j"
    moreover from this assms(3) have "i < length xs" "j < length xs" by auto
    ultimately show "i = j" using assms(1) by (simp add: nth_eq_iff_index_eq)
  qed
  have dys: "distinct ?ys"
    using assms(2) inj by (simp add: distinct_map)
  have sub: "set ?ys \<subseteq> set xs"
    using assms(3) by auto
  have df: "distinct (filter (\<lambda>x. x \<in> set ?ys) xs)"
    using assms(1) by simp
  have sf: "set (filter (\<lambda>x. x \<in> set ?ys) xs) = set ?ys"
    using sub by auto
  have "mset (filter (\<lambda>x. x \<in> set ?ys) xs) = mset ?ys"
    using set_eq_iff_mset_eq_distinct [OF df dys] sf by blast
  then show ?thesis by simp
qed

lemma label_determines_row:
  assumes "distinct (map fst table)" "x \<in> set table" "y \<in> set table" "fst x = fst y"
  shows "x = y"
  using assms by (meson distinct_map inj_onD)

lemma drop_train_rows:
  assumes "distinct (map fst table)" "set train \<subseteq> set table"
  shows "drop_labels table (index train) = Inr (filter (\<lambda>x. x \<notin> set train) table)"
proof -
  have "set (index train) \<subseteq> set (index table)"
    using assms(2) by (auto simp: index_def)
  moreover have "filter (\<lambda>(l, r). l \<notin> set (index train)) table = filter (\<lambda>x. x \<notin> set train) table"
  proof (rule filter_cong [OF refl])
    fix x assume x: "x \<in> set table"
    have "fst x \<in> fst ` set train \<longleftrightarrow> x \<in> set train"
    proof
      assume "fst x \<in> fst ` set train"
      then obtain y where y: "y \<in> set train" "fst x = fst y" by auto
      with assms x have "x = y" by (meson label_determines_row subsetD)
      with y show "x \<in> set train" by simp
    qed auto
    then show "(case x of (l, r) \<Rightarrow> l \<notin> set (index train)) = (x \<notin> set train)"
      by (cases x) (simp add: index_def)
  qed
  ultimately show ?thesis by (simp add: drop_labels_def)
qed

text \<open>
  Claim C7. With pairwise distinct row labels, the split of lesson 5.4 partitions the table:
  dropping the labels of \<open>train\<close> succeeds, the rows of \<open>train\<close> and \<open>val\<close> together are
  the rows of the table (each once), no row is in both, and every row of the table is in
  exactly one of the two.
\<close>

theorem train_val_partition:
  assumes "distinct (index housing)"
    and "mset perm = mset [0 ..< length housing]"
    and "train = sample perm housing"
  shows "\<exists>val. drop_labels housing (index train) = Inr val \<and>
           mset train + mset val = mset housing \<and>
           set train \<inter> set val = {} \<and>
           set train \<union> set val = set housing \<and>
           (\<forall>r \<in> set housing. (r \<in> set train) \<noteq> (r \<in> set val)) \<and>
           length train = sample_size (length housing)"
proof -
  let ?locs = "take (sample_size (length housing)) perm"
  let ?val = "filter (\<lambda>x. x \<notin> set train) housing"
  have dh: "distinct housing"
    using assms(1) by (simp add: index_def distinct_map)
  have "distinct perm"
    using assms(2) by (metis distinct_upt mset_eq_imp_distinct_iff)
  then have dl: "distinct ?locs" by simp
  have "set perm = {..< length housing}"
    using assms(2) by (metis atLeast_upt mset_eq_setD)
  then have sl: "set ?locs \<subseteq> {..< length housing}"
    by (metis set_take_subset)
  have tr: "train = map (\<lambda>i. housing ! i) ?locs"
    by (simp add: assms(3) sample_def)
  have sub: "set train \<subseteq> set housing"
    using sl by (auto simp: tr)
  have "length perm = length housing"
    using assms(2) by (metis length_upt minus_nat.diff_0 size_mset)
  moreover have "sample_size (length housing) \<le> length housing"
    unfolding sample_size_def by presburger
  ultimately have len: "length train = sample_size (length housing)"
    by (simp add: tr)
  have m: "mset train = filter_mset (\<lambda>x. x \<in> set train) (mset housing)"
    unfolding tr by (rule mset_nths_filter [OF dh dl sl])
  have "mset train + mset ?val = mset housing"
    by (simp add: m [symmetric]) (simp add: m)
  moreover have "drop_labels housing (index train) = Inr ?val"
    using drop_train_rows [OF assms(1) [unfolded index_def] sub] .
  moreover have "set train \<inter> set ?val = {}" by auto
  moreover have "set train \<union> set ?val = set housing" using sub by auto
  moreover have "\<forall>r \<in> set housing. (r \<in> set train) \<noteq> (r \<in> set ?val)" by auto
  ultimately show ?thesis using len by blast
qed

theorem train_val_partition_witness:
  "sample [3, 0, 4, 1, 2] [(10::nat, ''a''), (11, ''b''), (12, ''c''), (13, ''d''), (14, ''e'')]
     = [(13, ''d''), (10, ''a'')] \<and>
   drop_labels [(10::nat, ''a''), (11, ''b''), (12, ''c''), (13, ''d''), (14, ''e'')] [13, 10]
     = Inr [(11, ''b''), (12, ''c''), (14, ''e'')] \<and>
   mset [(13::nat, ''d''), (10, ''a'')] + mset [(11, ''b''), (12, ''c''), (14, ''e'')]
     = mset [(10, ''a''), (11, ''b''), (12, ''c''), (13, ''d''), (14, ''e'')]"
proof -
  let ?h = "[(10::nat, ''a''), (11, ''b''), (12, ''c''), (13, ''d''), (14, ''e'')]"
  let ?p = "[3, 0, 4, 1, 2] :: nat list"
  have d: "distinct (index ?h)" by (simp add: index_def)
  have u: "[0 ..< length ?h] = [0, 1, 2, 3, 4]" by (simp add: upt_rec)
  have p: "mset ?p = mset [0 ..< length ?h]" unfolding u by simp
  have s: "sample ?p ?h = [(13, ''d''), (10, ''a'')]"
    by (simp add: sample_def sample_size_def)
  have i: "index [(13::nat, ''d''), (10, ''a'')] = [13, 10]"
    by (simp add: index_def)
  have e: "drop_labels ?h [13, 10] = Inr [(11, ''b''), (12, ''c''), (14, ''e'')]"
    by (simp add: drop_labels_def index_def)
  from train_val_partition [OF d p refl]
  obtain val where v: "drop_labels ?h (index (sample ?p ?h)) = Inr val"
    and m: "mset (sample ?p ?h) + mset val = mset ?h"
    by blast
  from v have "val = [(11, ''b''), (12, ''c''), (14, ''e'')]"
    unfolding s i e by simp
  with m have "mset [(13::nat, ''d''), (10, ''a'')] + mset [(11, ''b''), (12, ''c''), (14, ''e'')] = mset ?h"
    unfolding s by simp
  with s e show ?thesis by blast
qed

section \<open>The exercise placeholder always raises\<close>

text \<open>
  Claim C8. For every input string \<open>predict_spam\<close> raises \<^verbatim>\<open>NotImplementedError\<close> and never
  returns a value: the raise follows the computation of the TF-IDF vector unconditionally.
\<close>

theorem predict_spam_raises:
  "predict_spam vec new_text = Inl NotImplementedError \<and>
   (\<forall>label. predict_spam vec new_text \<noteq> Inr label)"
  by (simp add: predict_spam_def)

section \<open>The from-scratch TF-IDF weights\<close>

lemma sum_list_indicator: "sum_list (map (\<lambda>x. if P x then 1 else 0) xs) = length (filter P xs)"
  by (induction xs) auto

lemma df_nth:
  assumes "t < ncols tf"
  shows "df tf ! t = card {d. d < length tf \<and> tf ! d ! t > 0}"
  using assms by (simp add: df_def sum_list_indicator length_filter_conv_card)

lemma length_df: "length (df tf) = ncols tf"
  by (simp add: df_def)

lemma idf_nth:
  assumes "t < ncols tf"
  shows "idf tf ! t = (if df tf ! t = 0 then None
                       else Some (ln (real (length tf) / real (df tf ! t))))"
  using assms by (simp add: idf_def length_df)

lemma tf_idf_nth:
  assumes "d < length tf" "length (tf ! d) = ncols tf" "t < ncols tf"
  shows "tf_idf tf ! d ! t = map_option (\<lambda>w. tf ! d ! t * w) (idf tf ! t)"
  using assms by (simp add: tf_idf_def idf_def length_df)

text \<open>
  Claim C3. In the from-scratch computation over a term-frequency matrix with \<open>N\<close> rows, the
  entry of \<open>tf_idf\<close> for document \<open>d\<close> and term \<open>t\<close> is \<open>tf(d, t) * log(N / df(t))\<close>, where
  \<open>df(t)\<close> is the number of documents in which the term has a strictly positive count; in
  particular a term with count \<open>0\<close> in a document has weight \<open>0\<close> there, provided
  \<open>df(t) > 0\<close>. (When no document has the term, the division by zero makes the entry
  non-finite.)
\<close>

theorem tf_idf_formula:
  assumes "\<forall>row \<in> set tf. length row = ncols tf"
    and "d < length tf" and "t < ncols tf"
  shows "let docs_with_t = card {d'. d' < length tf \<and> tf ! d' ! t > 0} in
           (0 < docs_with_t \<longrightarrow>
              tf_idf tf ! d ! t = Some (tf ! d ! t * ln (real (length tf) / real docs_with_t))) \<and>
           (0 < docs_with_t \<and> tf ! d ! t = 0 \<longrightarrow> tf_idf tf ! d ! t = Some 0) \<and>
           (docs_with_t = 0 \<longrightarrow> tf_idf tf ! d ! t = None)"
proof -
  have "length (tf ! d) = ncols tf"
    using assms(1,2) by simp
  with assms(2) have "tf_idf tf ! d ! t = map_option (\<lambda>w. tf ! d ! t * w) (idf tf ! t)"
    using assms(3) by (rule tf_idf_nth)
  then show ?thesis
    by (simp add: idf_nth [OF assms(3)] df_nth [OF assms(3)] Let_def)
qed

theorem tf_idf_formula_witness:
  "tf_idf [[1, 0], [1, 2]] ! 1 ! 1 = Some (2 * ln 2) \<and>
   tf_idf [[1, 0], [1, 2]] ! 0 ! 1 = Some 0"
proof -
  let ?tf = "[[1, 0], [1, 2]] :: real list list"
  have r: "\<forall>row \<in> set ?tf. length row = ncols ?tf" by (simp add: ncols_def)
  have n: "(1::nat) < length ?tf" "(0::nat) < length ?tf" "(1::nat) < ncols ?tf"
    by (simp_all add: ncols_def)
  have "{d'. d' < length ?tf \<and> ?tf ! d' ! 1 > 0} = {1}"
    by (auto simp: less_Suc_eq nth_Cons')
  then have c: "card {d'. d' < length ?tf \<and> ?tf ! d' ! 1 > 0} = 1"
    by simp
  show ?thesis
    using tf_idf_formula [OF r n(1) n(3)] tf_idf_formula [OF r n(2) n(3)]
    unfolding c Let_def by simp
qed

section \<open>Norms and denominators\<close>

lemma row_dot_self_nonneg: "0 \<le> row_dot a a"
  unfolding row_dot_def by (induction a) auto

lemma row_dot_self_zero_iff: "row_dot a a = 0 \<longleftrightarrow> (\<forall>x \<in> set a. x = 0)"
proof (induction a)
  case Nil
  show ?case by (simp add: row_dot_def)
next
  case (Cons x xs)
  have "row_dot (x # xs) (x # xs) = x * x + row_dot xs xs"
    by (simp add: row_dot_def)
  moreover have "x * x + row_dot xs xs = 0 \<longleftrightarrow> x = 0 \<and> row_dot xs xs = 0"
    using row_dot_self_nonneg [of xs]
    by (metis add_nonneg_eq_0_iff mult_eq_0_iff zero_le_square)
  ultimately show ?case using Cons.IH by simp
qed

lemma a_len_zero_iff: "a_len a = 0 \<longleftrightarrow> (\<forall>x \<in> set a. x = 0)"
  by (simp add: a_len_def row_dot_self_zero_iff)

lemma a_len_nonneg: "0 \<le> a_len a"
  by (simp add: a_len_def row_dot_self_nonneg)

lemma b_len_nth: "i < length B \<Longrightarrow> b_len B ! i = a_len (B ! i)"
  by (simp add: b_len_def a_len_def)

lemma denominators_nth: "i < length B \<Longrightarrow> denominators a B ! i = a_len a * a_len (B ! i)"
  by (simp add: denominators_def b_len_def a_len_def)

lemma cos_similarities_nth:
  assumes "B \<noteq> []"
  shows "\<exists>sims. cos_similarities B = Inr sims \<and> length sims = length B \<and>
           (\<forall>i < length B. sims ! i
               = np_divide (row_dot (B ! 0) (B ! i)) (a_len (B ! 0) * a_len (B ! i)))"
proof -
  from assms obtain a rest where B: "B = a # rest" by (cases B) auto
  let ?sims = "map (\<lambda>(n, d). np_divide n d) (zip (dot a B) (denominators a B))"
  have a0: "B ! 0 = a" by (simp add: B)
  have "cos_similarities B = Inr ?sims"
    by (simp add: cos_similarities_def B Let_def)
  moreover have "length ?sims = length B"
    by (simp add: dot_def denominators_def b_len_def)
  moreover have "\<forall>i < length B. ?sims ! i
               = np_divide (row_dot (B ! 0) (B ! i)) (a_len (B ! 0) * a_len (B ! i))"
  proof (intro allI impI)
    fix i assume i: "i < length B"
    then have "?sims ! i = np_divide (dot a B ! i) (denominators a B ! i)"
      by (simp add: dot_def denominators_def b_len_def)
    also have "dot a B ! i = row_dot (B ! 0) (B ! i)"
      using i unfolding a0 by (simp add: dot_def)
    also have "denominators a B ! i = a_len (B ! 0) * a_len (B ! i)"
      using i unfolding a0 by (simp add: denominators_nth)
    finally show "?sims ! i
               = np_divide (row_dot (B ! 0) (B ! i)) (a_len (B ! 0) * a_len (B ! i))" .
  qed
  ultimately show ?thesis by blast
qed

section \<open>Where the similarity divides by zero\<close>

lemma words_of_u: "words_of ''u'' = [''u'']"
  by (simp add: words_of_def str_split_def lower_def isspace_def ascii_uppercase_def ascii_lowercase_def)

lemma tokens_u: "tokens ''u'' = []"
  by (simp add: tokens_def lower_def ascii_uppercase_def ascii_lowercase_def digits_def)

lemma words_of_42: "words_of ''42'' = []"
  by (simp add: words_of_def str_split_def lower_def isspace_def ascii_uppercase_def ascii_lowercase_def)

lemma tokens_42: "tokens ''42'' = [''42'']"
  by (simp add: tokens_def lower_def ascii_uppercase_def ascii_lowercase_def digits_def)

lemma words_of_go_home: "words_of ''Go home'' = [''go'', ''home'']"
  by (simp add: words_of_def str_split_def lower_def isspace_def ascii_uppercase_def ascii_lowercase_def)

lemma tokens_go_home: "tokens ''Go home'' = [''go'', ''home'']"
  by (simp add: tokens_def lower_def ascii_uppercase_def ascii_lowercase_def digits_def)

lemma tf_idf_sparse_example:
  "tf_idf_sparse [''Go home'', ''u'', ''42'']
     = [[0, ln 2 + 1, ln 2 + 1], [0, 0, 0], [ln 2 + 1, 0, 0]]"
  by (simp add: tf_idf_sparse_def TfidfVectorizer_fit_def TfidfVectorizer_transform_def
      tokens_u tokens_42 tokens_go_home)

lemma length_tf_idf_sparse: "length (tf_idf_sparse corpus) = length corpus"
  by (simp add: tf_idf_sparse_def TfidfVectorizer_transform_def)

lemma tf_idf_sparse_nth:
  "i < length corpus \<Longrightarrow>
   tf_idf_sparse corpus ! i
     = map (\<lambda>(t, idf_t). real (count_list (tokens (corpus ! i)) t) * idf_t)
         (TfidfVectorizer_fit corpus)"
  by (simp add: tf_idf_sparse_def TfidfVectorizer_transform_def)

lemma idf_positive:
  assumes "(t, w) \<in> set (TfidfVectorizer_fit corpus)"
  shows "0 < w"
proof -
  let ?n = "real (length corpus)"
  let ?df = "real (length (filter (\<lambda>doc. t \<in> set (tokens doc)) corpus))"
  have w: "w = ln ((1 + ?n) / (1 + ?df)) + 1"
    using assms by (auto simp: TfidfVectorizer_fit_def)
  have "?df \<le> ?n" by simp
  then have "1 \<le> (1 + ?n) / (1 + ?df)" by simp
  then have "0 \<le> ln ((1 + ?n) / (1 + ?df))" by (rule ln_ge_zero)
  then show ?thesis unfolding w by linarith
qed

lemma vocabulary_covers:
  assumes "doc \<in> set corpus" "t \<in> set (tokens doc)"
  shows "t \<in> fst ` set (TfidfVectorizer_fit corpus)"
  using assms by (force simp: TfidfVectorizer_fit_def)

lemma zero_row_iff_no_token:
  assumes "i < length corpus"
  shows "(\<forall>x \<in> set (tf_idf_sparse corpus ! i). x = 0) \<longleftrightarrow> tokens (corpus ! i) = []"
proof
  assume z: "\<forall>x \<in> set (tf_idf_sparse corpus ! i). x = 0"
  show "tokens (corpus ! i) = []"
  proof (rule ccontr)
    assume "tokens (corpus ! i) \<noteq> []"
    then obtain t where t: "t \<in> set (tokens (corpus ! i))"
      by (cases "tokens (corpus ! i)") auto
    have "corpus ! i \<in> set corpus" using assms by simp
    then obtain w where tw: "(t, w) \<in> set (TfidfVectorizer_fit corpus)"
      using vocabulary_covers [OF _ t] by force
    then have "real (count_list (tokens (corpus ! i)) t) * w \<in> set (tf_idf_sparse corpus ! i)"
      unfolding tf_idf_sparse_nth [OF assms] by force
    with z have "real (count_list (tokens (corpus ! i)) t) * w = 0" by blast
    moreover have "0 < w" using tw by (rule idf_positive)
    moreover have "0 < count_list (tokens (corpus ! i)) t"
      using t by (simp add: count_list_0_iff zero_less_iff_neq_zero)
    ultimately show False by simp
  qed
next
  assume "tokens (corpus ! i) = []"
  then show "\<forall>x \<in> set (tf_idf_sparse corpus ! i). x = 0"
    by (auto simp: tf_idf_sparse_nth [OF assms])
qed

text \<open>
  On the matrix alone: an entry of \<open>a_len * b_len\<close> is zero exactly for an all-zero row,
  as soon as row 0 is not all zeros.
\<close>

lemma denominator_zero_iff_zero_row:
  assumes "i < length B" "a_len a \<noteq> 0"
  shows "denominators a B ! i = 0 \<longleftrightarrow> (\<forall>x \<in> set (B ! i). x = 0)"
    and "0 \<le> denominators a B ! i"
proof -
  have "denominators a B ! i = a_len a * a_len (B ! i)"
    using assms(1) by (rule denominators_nth)
  then show "denominators a B ! i = 0 \<longleftrightarrow> (\<forall>x \<in> set (B ! i). x = 0)"
    using assms(2) a_len_zero_iff [of "B ! i"] by simp
  show "0 \<le> denominators a B ! i"
    using a_len_nonneg [of a] a_len_nonneg [of "B ! i"]
    unfolding denominators_nth [OF assms(1)] by simp
qed

text \<open>
  Claim C4, as the code has it. For a corpus of ASCII messages: in the similarity of every
  message to message 0, the division \<open>dot / (a_len * b_len)\<close> divides by zero for exactly
  the messages in which the library's vectorizer finds no token (no run of two or more
  letters, digits or underscores): the TF-IDF row of such a message is all zeros and so is
  its norm, while the denominator of every message with a token is strictly positive,
  given that message 0 has a token.
\<close>

theorem division_by_zero_iff_no_token:
  assumes "\<forall>doc \<in> set corpus. isascii doc"
    and "i < length corpus" and "tokens (corpus ! 0) \<noteq> []"
  shows "(denominators (tf_idf_sparse corpus ! 0) (tf_idf_sparse corpus) ! i = 0
            \<longleftrightarrow> tokens (corpus ! i) = []) \<and>
         (tokens (corpus ! i) = [] \<longrightarrow>
            (\<forall>x \<in> set (tf_idf_sparse corpus ! i). x = 0) \<and> b_len (tf_idf_sparse corpus) ! i = 0) \<and>
         (tokens (corpus ! i) \<noteq> [] \<longrightarrow>
            0 < denominators (tf_idf_sparse corpus ! 0) (tf_idf_sparse corpus) ! i) \<and>
         (\<exists>sims. cos_similarities (tf_idf_sparse corpus) = Inr sims \<and>
            (sims ! i = None \<longleftrightarrow> tokens (corpus ! i) = []))"
proof -
  let ?B = "tf_idf_sparse corpus"
  have i: "i < length ?B" using assms(2) by (simp add: length_tf_idf_sparse)
  have pos: "0 < length corpus" using assms(2) by linarith
  have a: "a_len (?B ! 0) \<noteq> 0"
    using zero_row_iff_no_token [OF pos] assms(3) by (simp add: a_len_zero_iff)
  note z = zero_row_iff_no_token [OF assms(2)]
  note d = denominator_zero_iff_zero_row [OF i a]
  have d0: "denominators (?B ! 0) ?B ! i = 0 \<longleftrightarrow> tokens (corpus ! i) = []"
    using d(1) z by simp
  have bl: "tokens (corpus ! i) = [] \<longrightarrow> b_len ?B ! i = 0"
    using z i by (simp add: b_len_nth a_len_zero_iff)
  have dp: "tokens (corpus ! i) \<noteq> [] \<longrightarrow> 0 < denominators (?B ! 0) ?B ! i"
    using d0 d(2) by (simp add: less_le)
  have ne: "?B \<noteq> []" using i by auto
  obtain sims where s: "cos_similarities ?B = Inr sims"
    and n: "\<forall>i < length ?B. sims ! i
               = np_divide (row_dot (?B ! 0) (?B ! i)) (a_len (?B ! 0) * a_len (?B ! i))"
    using cos_similarities_nth [OF ne] by blast
  have "sims ! i = None \<longleftrightarrow> denominators (?B ! 0) ?B ! i = 0"
    using n i by (simp add: np_divide_def denominators_nth)
  with d0 have sn: "sims ! i = None \<longleftrightarrow> tokens (corpus ! i) = []" by simp
  have ex: "\<exists>sims. cos_similarities ?B = Inr sims \<and>
            (sims ! i = None \<longleftrightarrow> tokens (corpus ! i) = [])"
    by (rule exI [of _ sims]) (simp add: s sn)
  have zr: "tokens (corpus ! i) = [] \<longrightarrow>
            (\<forall>x \<in> set (?B ! i). x = 0) \<and> b_len ?B ! i = 0"
    using z bl by simp
  show ?thesis
    by (rule conjI [OF d0 conjI [OF zr conjI [OF dp ex]]])
qed

theorem division_by_zero_iff_no_token_witness:
  "isascii ''Go home'' \<and> isascii ''u'' \<and> isascii ''42'' \<and>
   tokens ''Go home'' = [''go'', ''home''] \<and> tokens ''u'' = [] \<and> tokens ''42'' = [''42''] \<and>
   denominators (tf_idf_sparse [''Go home'', ''u'', ''42''] ! 0)
      (tf_idf_sparse [''Go home'', ''u'', ''42'']) ! 1 = 0 \<and>
   0 < denominators (tf_idf_sparse [''Go home'', ''u'', ''42''] ! 0)
      (tf_idf_sparse [''Go home'', ''u'', ''42'']) ! 2"
proof -
  let ?corpus = "[''Go home'', ''u'', ''42'']"
  have asc: "isascii ''Go home''" "isascii ''u''" "isascii ''42''"
    by (simp_all add: isascii_def)
  then have all_ascii: "\<forall>doc \<in> set ?corpus. isascii doc" by simp
  have l: "1 < length ?corpus" "2 < length ?corpus" by simp_all
  have t0: "tokens (?corpus ! 0) \<noteq> []" by (simp add: tokens_go_home)
  have t1: "tokens (?corpus ! 1) = []" by (simp add: tokens_u)
  have t2: "tokens (?corpus ! 2) \<noteq> []" by (simp add: tokens_42)
  from division_by_zero_iff_no_token [OF all_ascii l(1) t0] t1
  have "denominators (tf_idf_sparse ?corpus ! 0) (tf_idf_sparse ?corpus) ! 1 = 0"
    by blast
  moreover from division_by_zero_iff_no_token [OF all_ascii l(2) t0] t2
  have "0 < denominators (tf_idf_sparse ?corpus ! 0) (tf_idf_sparse ?corpus) ! 2"
    by blast
  ultimately show ?thesis
    using asc by (simp add: tokens_go_home tokens_u tokens_42)
qed

text \<open>
  The claim as the specification words it fails in both directions. The message \<open>u\<close> has a
  word after lowercasing and stripping the non-letters, yet the vectorizer finds no token
  in it and the division is by zero; the message \<open>42\<close> has no word left, yet its row is not
  zero and its denominator is positive.
\<close>

theorem division_by_zero_no_words_counterexample:
  "words_of ''Go home'' = [''go'', ''home''] \<and>
   words_of ''u'' = [''u''] \<and>
   words_of ''42'' = [] \<and>
   denominators (tf_idf_sparse [''Go home'', ''u'', ''42''] ! 0)
      (tf_idf_sparse [''Go home'', ''u'', ''42'']) ! 1 = 0 \<and>
   denominators (tf_idf_sparse [''Go home'', ''u'', ''42''] ! 0)
      (tf_idf_sparse [''Go home'', ''u'', ''42'']) ! 2 \<noteq> 0 \<and>
   (\<exists>sims. cos_similarities (tf_idf_sparse [''Go home'', ''u'', ''42'']) = Inr sims \<and>
      sims ! 1 = None \<and> sims ! 2 = Some 0)"
proof -
  let ?L = "ln 2 + 1 :: real"
  let ?B = "[[0, ?L, ?L], [0, 0, 0], [?L, 0, 0]]"
  have "0 < ln (2 :: real)" by simp
  then have L: "?L \<noteq> 0" by linarith
  have B: "tf_idf_sparse [''Go home'', ''u'', ''42''] = ?B"
    by (rule tf_idf_sparse_example)
  have a0: "a_len (?B ! 0) \<noteq> 0" and a1: "a_len (?B ! 1) = 0" and a2: "a_len (?B ! 2) \<noteq> 0"
    using L by (simp_all add: a_len_zero_iff)
  have d1: "denominators (?B ! 0) ?B ! 1 = 0"
    using a1 by (simp add: denominators_nth)
  have d2: "denominators (?B ! 0) ?B ! 2 \<noteq> 0"
    using a0 a2 by (simp add: denominators_nth)
  obtain sims where s: "cos_similarities ?B = Inr sims"
    and n: "\<forall>i < length ?B. sims ! i
               = np_divide (row_dot (?B ! 0) (?B ! i)) (a_len (?B ! 0) * a_len (?B ! i))"
    using cos_similarities_nth [of ?B] by blast
  have s1: "sims ! 1 = None"
    using n a1 by (simp add: np_divide_def)
  have s2: "sims ! 2 = Some 0"
  proof -
    have "row_dot (?B ! 0) (?B ! 2) = 0" by (simp add: row_dot_def)
    moreover have "a_len (?B ! 0) * a_len (?B ! 2) \<noteq> 0" using a0 a2 by simp
    ultimately show ?thesis using n by (simp add: np_divide_def)
  qed
  have "\<exists>sims. cos_similarities ?B = Inr sims \<and> sims ! 1 = None \<and> sims ! 2 = Some 0"
    using s s1 s2 by blast
  with d1 d2 show ?thesis
    unfolding B by (simp add: words_of_go_home words_of_u words_of_42)
qed

section \<open>The 30 nearest neighbours\<close>



















text \<open>
  When the values are pairwise distinct the sorting algorithm does not matter: every
  arrangement of the entries in ascending order of their values is the one of the model.
\<close>

lemma filter_same_key:
  assumes "distinct (map f xs)" "k \<in> set xs"
  shows "filter (\<lambda>x. f k = f x) xs = [k]"
  using assms
proof (induction xs)
  case Nil
  then show ?case by simp
next
  case (Cons a xs)
  show ?case
  proof (cases "k = a")
    case True
    have "filter (\<lambda>x. f a = f x) xs = []"
      using Cons.prems(1) by (auto simp: filter_empty_conv)
    then show ?thesis using True by simp
  next
    case False
    then have k: "k \<in> set xs" using Cons.prems(2) by simp
    then have "f k \<in> f ` set xs" by (rule imageI)
    moreover have "f a \<notin> f ` set xs" using Cons.prems(1) by simp
    ultimately have "f k \<noteq> f a" by metis
    then show ?thesis using Cons.IH k Cons.prems(1) by simp
  qed
qed

lemma sort_key_unique:
  assumes "distinct (map f xs)" and "mset ys = mset xs" and "sorted (map f ys)"
  shows "ys = sort_key f xs"
proof -
  have "mset (map f ys) = mset (map f xs)"
    using assms(2) by (metis mset_map)
  then have dy: "distinct (map f ys)"
    using assms(1) by (metis mset_eq_imp_distinct_iff)
  have "filter (\<lambda>x. f k = f x) ys = filter (\<lambda>x. f k = f x) xs" if k: "k \<in> set ys" for k
  proof -
    have "k \<in> set xs" using k assms(2) by (metis mset_eq_setD)
    then show ?thesis
      using filter_same_key [OF dy k] filter_same_key [OF assms(1)] by simp
  qed
  then have "sort_key f xs = ys"
    using assms(2,3) by (intro properties_for_sort_key) simp_all
  then show ?thesis by simp
qed

lemma sort_values_any_algorithm:
  assumes "distinct (map sint series)"
    and "mset ps = mset (zip [0 ..< length series] series)"
    and "sorted (map (\<lambda>(label, v). sint v) ps)"
  shows "ps = sort_values series"
proof -
  have "map (\<lambda>(label, v). sint v) (zip [0 ..< length series] series) = map sint series"
    by (auto simp: in_set_conv_nth intro!: nth_equalityI)
  then have "distinct (map (\<lambda>(label, v). sint v) (zip [0 ..< length series] series))"
    using assms(1) by simp
  then show ?thesis
    unfolding sort_values_def using assms(2,3) by (rule sort_key_unique)
qed








section \<open>The validation error and the notebook's globals\<close>

text \<open>
  Claim C2 is not what the code does. The vectorizer, the scaler and the features of the
  model are fit on the global \<open>X_train_dict\<close> and the predictions are made for the global
  \<open>X_val_dict\<close>, whatever is passed as \<open>X_train\<close> and \<open>X_val\<close>: the result does not depend on
  these two parameters. So the call with the halves swapped,
  \<^verbatim>\<open>get_val_error(X_val, y_val, X_train, y_train)\<close>, still fits on the features of the
  first half (now with the labels of the second) and predicts for the second half (now
  compared with the labels of the first).
\<close>

theorem get_val_error_ignores_features:
  "get_val_error sk X_train_dict X_val_dict X_train y_train X_val y_val
     = get_val_error sk X_train_dict X_val_dict X_train' y_train X_val' y_val \<and>
   get_val_error sk X_train_dict X_val_dict X_val y_val X_train y_train
     = get_val_error sk X_train_dict X_val_dict X_train y_val X_val y_train"
  by (simp add: get_val_error_def)

section \<open>Which helper depends on the dataset\<close>

text \<open>
  The specification's sentence, that neither helper is a pure function independent of the
  downloaded dataset, fails for \<open>get_bigrams\<close>.
\<close>

theorem get_bigrams_dataset_independent_counterexample:
  "dataset_independent
     (call_get_bigrams :: string list \<Rightarrow> string list \<Rightarrow> (string \<times> string) list)"
  by (simp add: dataset_independent_def call_get_bigrams_def)

text \<open>
  Claim C6, as the code has it. \<open>get_bigrams\<close> is a pure function of its argument: calls
  with equal arguments return equal results in every notebook state, whatever dataset was
  downloaded. \<open>get_30NN_prediction\<close> is a function of its argument and of the globals
  \<open>X_train\<close> and \<open>y_train\<close>, and it does depend on them: the same query point gets
  different predictions from different training data.
\<close>

theorem helpers_and_the_dataset:
  "dataset_independent (call_get_bigrams :: 'g \<Rightarrow> 'a list \<Rightarrow> ('a \<times> 'a) list) \<and>
   \<not> dataset_independent call_get_30NN_prediction \<and>
   call_get_30NN_prediction ([[0]], [1]) [0] = Inr (Some 1) \<and>
   call_get_30NN_prediction ([[0]], [2]) [0] = Inr (Some 2)"
proof -
  have a: "call_get_30NN_prediction ([[0]], [1]) [0] = Inr (Some 1)"
    by (simp add: call_get_30NN_prediction_def get_30NN_prediction_def sort_values_def
        loc_def mean_def)
  have b: "call_get_30NN_prediction ([[0]], [2]) [0] = Inr (Some 2)"
    by (simp add: call_get_30NN_prediction_def get_30NN_prediction_def sort_values_def
        loc_def mean_def)
  have "\<not> dataset_independent call_get_30NN_prediction"
  proof
    assume "dataset_independent call_get_30NN_prediction"
    then have "call_get_30NN_prediction ([[0]], [1]) [0] = call_get_30NN_prediction ([[0]], [2]) [0]"
      unfolding dataset_independent_def by blast
    with a b show False by simp
  qed
  moreover have "dataset_independent (call_get_bigrams :: 'g \<Rightarrow> 'a list \<Rightarrow> ('a \<times> 'a) list)"
    by (simp add: dataset_independent_def call_get_bigrams_def)
  ultimately show ?thesis using a b by blast
qed

end
